theory Spec2Isabelle
  imports Main "HOL-Library.AList"
begin

section \<open>Python values, errors and the HTTP boundary\<close>

text \<open>
  The module \<^verbatim>\<open>adlfs/core.py\<close> talks to Azure Datalake over HTTP through the
  \<^verbatim>\<open>requests\<close> library. The embedding stops at that boundary: a request is the
  tuple of arguments handed to \<^verbatim>\<open>requests.get/head/put/patch/post\<close>, a response is
  the object that comes back, and the provider is a function from the requests issued so
  far and the current request to a response. Every operation threads the log of issued
  requests, so that what was sent, and in which order, is part of its result.

  Python names that start with an underscore lose it (\<^verbatim>\<open>_make_headers\<close> is
  \<open>make_headers\<close>). Strings and bytes are both \<open>string\<close>. JSON numbers are integers here;
  floating point is outside the embedding.
\<close>

type_synonym bytes = string

datatype pyval =
    PNone
  | PBool bool
  | PInt int
  | PStr string
  | PList "pyval list"
  | PDict "(string \<times> pyval) list"

text \<open>
  A dictionary is an association list read through its first binding of a key
  (\<open>map_of\<close>), written with \<open>AList.update\<close> (an existing key keeps its place, a new one
  goes last, as in a Python dict) and popped with \<open>AList.delete\<close>.
\<close>

datatype error =
    HTTPError int bytes
  | KeyError
  | TypeError
  | ValueError
  | AttributeError
  | NameError string

text \<open>
  A header value is a string, an integer (the source passes \<^verbatim>\<open>content_length=l\<close> with
  an \<^verbatim>\<open>int\<close>), or the f-string \<^verbatim>\<open>f'Bearer {self.token}'\<close>, kept as the token it
  formats.
\<close>

datatype hval = HStr string | HInt int | HBearer pyval

datatype verb = GET | HEAD | PUT | PATCH | POST

text \<open>\<^verbatim>\<open>io.BytesIO\<close>: the bytes held and the stream position.\<close>

record bytesio =
  getvalue :: bytes
  tell :: nat

text \<open>
  The \<^verbatim>\<open>data=\<close> argument of a request: absent, a file-like object (the handle's buffer
  itself), a byte string, or a form dictionary.
\<close>

datatype body = NoData | Stream bytesio | Bytes bytes | Form "(string \<times> string) list"

record request =
  rq_verb :: verb
  rq_url :: string
  rq_headers :: "(string \<times> hval) list"
  rq_params :: "(string \<times> pyval) list"
  rq_data :: body

text \<open>
  A response: \<open>json\<close> is what \<^verbatim>\<open>response.json()\<close> returns (\<open>None\<close> when decoding
  raises), \<open>resp_headers\<close> the lookup of \<^verbatim>\<open>response.headers\<close>.
\<close>

record response =
  status_code :: int
  content :: bytes
  json :: "pyval option"
  resp_headers :: "string \<rightharpoonup> string"

type_synonym provider = "request list \<Rightarrow> request \<Rightarrow> response"

definition send :: "provider \<Rightarrow> request list \<Rightarrow> request \<Rightarrow> response \<times> request list" where
  "send prov log rq = (prov log rq, log @ [rq])"

text \<open>\<^verbatim>\<open>requests.codes.ok\<close>.\<close>

definition codes_ok :: int where
  "codes_ok = 200"

text \<open>
  \<^verbatim>\<open>Response.raise_for_status()\<close> of the requests library: it raises for the client
  and server error classes only, and returns for every other status.
\<close>

definition raise_for_status :: "response \<Rightarrow> error + unit" where
  "raise_for_status r =
     (if 400 \<le> status_code r \<and> status_code r < 600
      then Inl (HTTPError (status_code r) (content r))
      else Inr ())"

subsection \<open>Python built-ins the module relies on\<close>

text \<open>\<^verbatim>\<open>str(n)\<close> for an integer.\<close>

definition digit_char :: "nat \<Rightarrow> char" where
  "digit_char d = ''0123456789'' ! d"

fun str_nat :: "nat \<Rightarrow> string" where
  "str_nat n = (if n < 10 then [digit_char n] else str_nat (n div 10) @ [digit_char (n mod 10)])"

declare str_nat.simps [simp del]

definition str_int :: "int \<Rightarrow> string" where
  "str_int i = (if i < 0 then CHR ''-'' # str_nat (nat (- i)) else str_nat (nat i))"

text \<open>\<^verbatim>\<open>str((a, b))\<close> for a pair of integers.\<close>

definition str_tuple2 :: "int \<times> int \<Rightarrow> string" where
  "str_tuple2 t = ''('' @ str_int (fst t) @ '', '' @ str_int (snd t) @ '')''"

text \<open>Truth value of an object, as \<^verbatim>\<open>if x:\<close> tests it.\<close>

fun truthy :: "pyval \<Rightarrow> bool" where
  "truthy PNone = False"
| "truthy (PBool b) = b"
| "truthy (PInt i) = (i \<noteq> 0)"
| "truthy (PStr s) = (s \<noteq> [])"
| "truthy (PList xs) = (xs \<noteq> [])"
| "truthy (PDict kvs) = (kvs \<noteq> [])"

text \<open>\<^verbatim>\<open>x[k]\<close> with a string key: only a dictionary accepts it.\<close>

fun py_getitem :: "pyval \<Rightarrow> string \<Rightarrow> error + pyval" where
  "py_getitem (PDict kvs) k = (case map_of kvs k of None \<Rightarrow> Inl KeyError | Some v \<Rightarrow> Inr v)"
| "py_getitem _ k = Inl TypeError"

text \<open>\<^verbatim>\<open>x.keys()\<close>.\<close>

fun py_keys :: "pyval \<Rightarrow> error + string list" where
  "py_keys (PDict kvs) = Inr (map fst kvs)"
| "py_keys _ = Inl AttributeError"

text \<open>
  \<^verbatim>\<open>for y in x\<close>: a list gives its elements, a dictionary its keys, a string its
  characters; nothing else is iterable.
\<close>

fun py_iter :: "pyval \<Rightarrow> error + pyval list" where
  "py_iter (PList xs) = Inr xs"
| "py_iter (PDict kvs) = Inr (map (\<lambda>kv. PStr (fst kv)) kvs)"
| "py_iter (PStr s) = Inr (map (\<lambda>c. PStr [c]) s)"
| "py_iter _ = Inl TypeError"

text \<open>
  \<^verbatim>\<open>int(x)\<close>. For a string the embedding reads an optional sign followed by ASCII
  digits, the form the provider sends; the other spellings Python accepts (surrounding
  white space, underscores between digits, non-ASCII digits) are outside the embedding
  and end in \<open>ValueError\<close> here.
\<close>

definition is_digit :: "char \<Rightarrow> bool" where
  "is_digit c = (48 \<le> (of_char c :: nat) \<and> (of_char c :: nat) \<le> 57)"

definition nat_of_digits :: "string \<Rightarrow> nat" where
  "nat_of_digits s = foldl (\<lambda>acc c. 10 * acc + (of_char c - 48)) 0 s"

definition parse_nat :: "string \<Rightarrow> int option" where
  "parse_nat s = (if s \<noteq> [] \<and> list_all is_digit s then Some (int (nat_of_digits s)) else None)"

fun parse_int :: "string \<Rightarrow> int option" where
  "parse_int [] = None"
| "parse_int (c # cs) =
     (if c = CHR ''-'' then map_option uminus (parse_nat cs)
      else if c = CHR ''+'' then parse_nat cs
      else parse_nat (c # cs))"

fun py_int :: "pyval \<Rightarrow> error + int" where
  "py_int (PInt i) = Inr i"
| "py_int (PBool b) = Inr (if b then 1 else 0)"
| "py_int (PStr s) = (case parse_int s of None \<Rightarrow> Inl ValueError | Some i \<Rightarrow> Inr i)"
| "py_int _ = Inl TypeError"

text \<open>String methods: \<^verbatim>\<open>rstrip('/')\<close>, \<^verbatim>\<open>startswith\<close>, \<^verbatim>\<open>split(sep)[0]\<close>,
  \<^verbatim>\<open>split('/')\<close> and \<^verbatim>\<open>'/'.join\<close>.\<close>

definition rstrip_slash :: "string \<Rightarrow> string" where
  "rstrip_slash s = rev (dropWhile (\<lambda>c. c = CHR ''/'') (rev s))"

definition startswith :: "string \<Rightarrow> string \<Rightarrow> bool" where
  "startswith s p = (take (length p) s = p)"

fun before_sep :: "string \<Rightarrow> string \<Rightarrow> string" where
  "before_sep sep [] = []"
| "before_sep sep (c # cs) = (if startswith (c # cs) sep then [] else c # before_sep sep cs)"

fun split_slash :: "string \<Rightarrow> string list" where
  "split_slash [] = [[]]"
| "split_slash (c # cs) =
     (if c = CHR ''/'' then [] # split_slash cs
      else (case split_slash cs of [] \<Rightarrow> [[c]] | p # ps \<Rightarrow> (c # p) # ps))"

fun join_slash :: "string list \<Rightarrow> string" where
  "join_slash [] = []"
| "join_slash [p] = p"
| "join_slash (p # q # ps) = p @ CHR ''/'' # join_slash (q # ps)"

section \<open>AzureBlobFileSystem\<close>

text \<open>
  The attributes of the filesystem object. \<open>dns_suffix\<close> is the constant the
  constructor stores; \<open>root_marker\<close> is the class attribute inherited from the base
  class \<^verbatim>\<open>AbstractFileSystem\<close>, which is not part of this repository, so it is a field.
\<close>

record abfs =
  tenant_id :: string
  client_id :: string
  client_secret :: string
  storage_account :: string
  filesystem :: string
  token :: pyval
  token_type :: pyval
  dns_suffix :: string
  root_marker :: string

definition protocol :: string where
  "protocol = ''abfs''"

text \<open>
  \<^verbatim>\<open>_strip_protocol\<close>. The class has the single protocol \<^verbatim>\<open>'abfs'\<close>, so the loop
  runs once; \<^verbatim>\<open>stringify_path\<close> leaves a string as it is.
\<close>

definition strip_protocol :: "abfs \<Rightarrow> string \<Rightarrow> string" where
  "strip_protocol fs path =
     (let path = rstrip_slash path;
          path = (if startswith path protocol
                  then (let protocol' = before_sep ''://'' path
                        in drop (length protocol' + 3) path)
                  else path)
      in if path \<noteq> [] then path else root_marker fs)"

text \<open>\<^verbatim>\<open>_parse_path\<close>: a string, or the empty list when the split has no part.\<close>

definition parse_path :: "string \<Rightarrow> pyval" where
  "parse_path path =
     (let fparts = split_slash path
      in if length fparts = 0 then PList [] else PStr (join_slash fparts))"

text \<open>\<^verbatim>\<open>_make_url\<close>: \<^verbatim>\<open>if not path\<close> holds for \<^verbatim>\<open>None\<close> and for the empty string.\<close>

definition make_url :: "abfs \<Rightarrow> string option \<Rightarrow> string" where
  "make_url fs path =
     (let root = ''https://'' @ storage_account fs @ dns_suffix fs @ ''/'' @ filesystem fs
      in case path of
           None \<Rightarrow> root
         | Some p \<Rightarrow> if p = [] then root else root @ ''/'' @ p)"

text \<open>
  \<^verbatim>\<open>_make_headers(content_length, content_type, media_type, range, **kwargs)\<close>. An
  argument left at its default is \<open>None\<close>. The only caller that passes \<^verbatim>\<open>range\<close>
  passes a pair of integers, and a pair is always true under \<^verbatim>\<open>if range:\<close>. The
  parameter \<^verbatim>\<open>encoding\<close> is never read.
\<close>

definition make_headers ::
  "abfs \<Rightarrow> hval option \<Rightarrow> string option \<Rightarrow> string option \<Rightarrow> (int \<times> int) option \<Rightarrow>
   (string \<times> hval) list \<Rightarrow> (string \<times> hval) list" where
  "make_headers fs content_length content_type media_type range' kwargs =
     (let headers = [(''x-ms-version'', HStr ''2019-02-02''),
                     (''Authorization'', HBearer (token fs))];
          headers = (case content_type of
                       None \<Rightarrow> headers
                     | Some ct \<Rightarrow> if ct \<noteq> [] then AList.update ''Content-Type'' (HStr ct) headers
                                 else headers);
          headers = (case media_type of
                       None \<Rightarrow> headers
                     | Some mt \<Rightarrow> if mt \<noteq> [] then AList.update ''Media-Type'' (HStr mt) headers
                                 else headers);
          headers = (case range' of
                       None \<Rightarrow> headers
                     | Some r \<Rightarrow> AList.update ''Range'' (HStr (str_tuple2 r)) headers);
          headers = (case content_length of
                       None \<Rightarrow> headers
                     | Some cl \<Rightarrow> AList.update ''Content-Length'' cl headers)
      in fold (\<lambda>kv. AList.update (fst kv) (snd kv)) kwargs headers)"

section \<open>AzureBlobFile\<close>

text \<open>
  A file object keeps a reference to its filesystem (\<^verbatim>\<open>self.fs = fs\<close>), not a copy:
  \<open>fs\<close> is an address in a heap of filesystem objects, read each time a request is
  built. \<open>fpath\<close> is \<^verbatim>\<open>self.path\<close>, \<open>buffer\<close> the write buffer of the base class.
\<close>

type_synonym heap = "nat \<Rightarrow> abfs"

record handle =
  fs :: nat
  fpath :: string
  mode :: string
  buffer :: bytesio

text \<open>\<^verbatim>\<open>x or 0\<close> for an optional integer.\<close>

definition or_zero :: "int option \<Rightarrow> int" where
  "or_zero x = (case x of None \<Rightarrow> 0 | Some v \<Rightarrow> if v \<noteq> 0 then v else 0)"

text \<open>
  \<^verbatim>\<open>_fetch_range\<close>: one GET; the content of the response is returned whatever its
  status.
\<close>

definition fetch_range ::
  "provider \<Rightarrow> heap \<Rightarrow> handle \<Rightarrow> int option \<Rightarrow> int option \<Rightarrow> request list \<Rightarrow>
   (error + bytes) \<times> request list" where
  "fetch_range prov heap h start end' log =
     (let headers =
            (if start \<noteq> None \<or> end' \<noteq> None
             then (let start = or_zero start;
                       end' = or_zero end'
                   in make_headers (heap (fs h)) None (Some ''application/x-www-form-urlencoded'')
                        None (Some (start, end' - 1)) [])
             else make_headers (heap (fs h)) None (Some ''application/x-www-form-urlencoded'')
                    None None []);
          url = make_url (heap (fs h)) None @ ''/'' @ fpath h;
          (response, log') = send prov log
             \<lparr>rq_verb = GET, rq_url = url, rq_headers = headers, rq_params = [], rq_data = NoData\<rparr>;
          data = content response
      in (Inr data, log'))"

text \<open>
  The idiom every checked call repeats:
  \<^verbatim>\<open>if not response.status_code == requests.codes.ok: response.raise_for_status()\<close>.
\<close>

definition check_status :: "response \<Rightarrow> error + unit" where
  "check_status response =
     (if status_code response \<noteq> codes_ok then raise_for_status response else Inr ())"

text \<open>\<^verbatim>\<open>_initiate_upload\<close>: the PUT is given the handle's buffer as its data.\<close>

definition initiate_upload ::
  "provider \<Rightarrow> heap \<Rightarrow> handle \<Rightarrow> request list \<Rightarrow> (error + unit) \<times> request list" where
  "initiate_upload prov heap h log =
     (let headers = make_headers (heap (fs h)) (Some (HStr ''0''))
                      (Some ''application/x-www-form-urlencoded'')
                      (Some ''application/octet-stream'') None [];
          url = make_url (heap (fs h)) (Some (fpath h));
          params = [(''resource'', PStr ''file'')];
          (response, log') = send prov log
             \<lparr>rq_verb = PUT, rq_url = url, rq_headers = headers, rq_params = params,
              rq_data = Stream (buffer h)\<rparr>
      in (check_status response, log'))"

text \<open>\<^verbatim>\<open>upload_single_shot\<close>.\<close>

definition upload_single_shot ::
  "provider \<Rightarrow> heap \<Rightarrow> handle \<Rightarrow> bool \<Rightarrow> request list \<Rightarrow> (error + unit) \<times> request list" where
  "upload_single_shot prov heap h final log =
     (let headers = make_headers (heap (fs h)) None None None None [];
          headers = AList.update ''Content-Length'' (HStr ''0'') headers;
          url = make_url (heap (fs h)) (Some (fpath h));
          params = [(''resource'', PStr ''file'')];
          (response, log') = send prov log
             \<lparr>rq_verb = PUT, rq_url = url, rq_headers = headers, rq_params = params,
              rq_data = Stream (buffer h)\<rparr>
      in (check_status response, log'))"

section \<open>Listing and status\<close>

fun map_result :: "('a \<Rightarrow> error + 'b) \<Rightarrow> 'a list \<Rightarrow> error + 'b list" where
  "map_result f [] = Inr []"
| "map_result f (x # xs) =
     (case f x of
        Inl e \<Rightarrow> Inl e
      | Inr y \<Rightarrow> (case map_result f xs of Inl e \<Rightarrow> Inl e | Inr ys \<Rightarrow> Inr (y # ys)))"

text \<open>
  The body of the loop of \<^verbatim>\<open>ls\<close> in detail mode, on one element of the path list:
  \<^verbatim>\<open>path_.keys()\<close> exists on a dictionary only.
\<close>

fun normalize_entry :: "pyval \<Rightarrow> error + pyval" where
  "normalize_entry (PDict kvs) =
     (let kvs = (if ''isDirectory'' \<in> set (map fst kvs) \<and>
                    map_of kvs ''isDirectory'' = Some (PStr ''true'')
                 then AList.update ''type'' (PStr ''directory'') kvs
                 else AList.update ''type'' (PStr ''file'') kvs)
      in if ''contentLength'' \<in> set (map fst kvs)
         then (case map_of kvs ''contentLength'' of
                 None \<Rightarrow> Inl KeyError
               | Some v \<Rightarrow>
                   (case py_int v of
                      Inl e \<Rightarrow> Inl e
                    | Inr n \<Rightarrow> Inr (PDict (AList.update ''size'' (PInt n)
                                              (AList.delete ''contentLength'' kvs)))))
         else Inr (PDict (AList.update ''size'' (PInt 0) kvs)))"
| "normalize_entry _ = Inl AttributeError"

text \<open>The \<^verbatim>\<open>try\<close> block of \<^verbatim>\<open>ls\<close> from \<^verbatim>\<open>if response['paths']:\<close> on.\<close>

definition ls_listing :: "pyval \<Rightarrow> bool \<Rightarrow> error + pyval" where
  "ls_listing response detail =
     (case py_getitem response ''paths'' of
        Inl e \<Rightarrow> Inl e
      | Inr pathlist \<Rightarrow>
          if truthy pathlist
          then (case py_iter pathlist of
                  Inl e \<Rightarrow> Inl e
                | Inr ps \<Rightarrow>
                    if detail
                    then (case map_result normalize_entry ps of
                            Inl e \<Rightarrow> Inl e
                          | Inr pathlist' \<Rightarrow>
                              (case pathlist' of
                                 [p] \<Rightarrow> Inr p
                               | _ \<Rightarrow> Inr (PList pathlist')))
                    else (case map_result (\<lambda>p. py_getitem p ''name'') ps of
                            Inl e \<Rightarrow> Inl e
                          | Inr files \<Rightarrow> Inr (PList files)))
          else Inr (PList []))"

text \<open>
  The handler \<^verbatim>\<open>except KeyError\<close> of \<^verbatim>\<open>ls\<close>. An error code other than
  \<^verbatim>\<open>'PathNotFound'\<close> falls off the end of the function, which returns \<^verbatim>\<open>None\<close>.
\<close>

definition ls_except :: "pyval \<Rightarrow> error + pyval" where
  "ls_except response =
     (case py_keys response of
        Inl e \<Rightarrow> Inl e
      | Inr ks \<Rightarrow>
          if ''error'' \<in> set ks
          then (case py_getitem response ''error'' of
                  Inl e \<Rightarrow> Inl e
                | Inr err \<Rightarrow>
                    (case py_getitem err ''code'' of
                       Inl e \<Rightarrow> Inl e
                     | Inr code \<Rightarrow>
                         if code = PStr ''PathNotFound'' then Inr (PList []) else Inr PNone))
          else Inl KeyError)"

text \<open>
  What \<^verbatim>\<open>ls\<close> does with the response of its GET. Only a \<open>KeyError\<close> reaches the
  handler, and only the indexing of the decoded body raises one, so the handler sees the
  decoded body.
\<close>

definition ls_response :: "response \<Rightarrow> bool \<Rightarrow> error + pyval" where
  "ls_response response detail =
     (case check_status response of
        Inl e \<Rightarrow> Inl e
      | Inr _ \<Rightarrow>
          (case json response of
             None \<Rightarrow> Inl ValueError
           | Some response' \<Rightarrow>
               (case ls_listing response' detail of
                  Inl KeyError \<Rightarrow> ls_except response'
                | r \<Rightarrow> r)))"

definition ls ::
  "provider \<Rightarrow> abfs \<Rightarrow> string \<Rightarrow> bool \<Rightarrow> string \<Rightarrow> bool \<Rightarrow> request list \<Rightarrow>
   (error + pyval) \<times> request list" where
  "ls prov self path detail resource recursive log =
     (let path = strip_protocol self path;
          directory = parse_path path;
          url = make_url self None;
          headers = make_headers self None (Some ''application/x-www-form-urlencoded'')
                      None None [];
          payload = [(''resource'', PStr resource), (''recursive'', PBool recursive)];
          payload = (if directory \<noteq> PNone then AList.update ''directory'' directory payload
                     else payload);
          (response, log') = send prov log
             \<lparr>rq_verb = GET, rq_url = url, rq_headers = headers, rq_params = payload,
              rq_data = NoData\<rparr>
      in (ls_response response detail, log'))"

text \<open>The dictionary \<^verbatim>\<open>info\<close> builds from the headers of a HEAD response.\<close>

definition info_status :: "response \<Rightarrow> string \<Rightarrow> error + pyval" where
  "info_status response path =
     (case resp_headers response ''Content-Length'' of
        None \<Rightarrow> Inl KeyError
      | Some cl \<Rightarrow>
          (case py_int (PStr cl) of
             Inl e \<Rightarrow> Inl e
           | Inr n \<Rightarrow>
               (case resp_headers response ''x-ms-resource-type'' of
                  None \<Rightarrow> Inl KeyError
                | Some t \<Rightarrow>
                    Inr (PDict [(''name'', PStr path), (''size'', PInt n), (''type'', PStr t)]))))"

text \<open>
  \<^verbatim>\<open>info\<close>: on a HEAD that is not OK it returns whatever \<^verbatim>\<open>ls(path, detail=False)\<close>
  returns; when that raises (the bare \<^verbatim>\<open>except:\<close> catches everything) it calls
  \<^verbatim>\<open>raise_for_status()\<close> on the HEAD response and, if that returns, goes on to read
  the headers. Its parameter \<^verbatim>\<open>detail\<close> is overwritten before it is read.
\<close>

definition info ::
  "provider \<Rightarrow> abfs \<Rightarrow> string \<Rightarrow> request list \<Rightarrow> (error + pyval) \<times> request list" where
  "info prov self path log =
     (let path = strip_protocol self path;
          url = make_url self (Some path);
          headers = make_headers self None (Some ''application/x-www-form-urlencoded'')
                      None None [];
          payload = [(''action'', PStr ''getStatus'')];
          (response, log1) = send prov log
             \<lparr>rq_verb = HEAD, rq_url = url, rq_headers = headers, rq_params = payload,
              rq_data = NoData\<rparr>
      in if status_code response \<noteq> codes_ok
         then (case ls prov self path False ''filesystem'' False log1 of
                 (Inr detail, log2) \<Rightarrow> (Inr detail, log2)
               | (Inl e, log2) \<Rightarrow>
                   (case raise_for_status response of
                      Inl e' \<Rightarrow> (Inl e', log2)
                    | Inr _ \<Rightarrow> (info_status response path, log2)))
         else (info_status response path, log1))"

section \<open>Chunked upload and credentials\<close>

text \<open>\<^verbatim>\<open>_get_size\<close>.\<close>

definition get_size ::
  "provider \<Rightarrow> heap \<Rightarrow> handle \<Rightarrow> request list \<Rightarrow> (error + pyval) \<times> request list" where
  "get_size prov heap h log =
     (case info prov (heap (fs h)) (fpath h) log of
        (Inl e, log') \<Rightarrow> (Inl e, log')
      | (Inr d, log') \<Rightarrow> (py_getitem d ''size'', log'))"

text \<open>
  \<^verbatim>\<open>_upload_chunk\<close>: rewind the buffer, ask for the remote size (the answer is not
  used), append at position 0, flush at the length of the buffer.
\<close>

definition upload_chunk ::
  "provider \<Rightarrow> heap \<Rightarrow> handle \<Rightarrow> bool \<Rightarrow> request list \<Rightarrow>
   (error + unit) \<times> handle \<times> request list" where
  "upload_chunk prov heap h final log =
     (let h = h\<lparr>buffer := (buffer h)\<lparr>tell := 0\<rparr>\<rparr>;
          data = getvalue (buffer h);
          l = int (length data)
      in case get_size prov heap h log of
           (Inl e, log1) \<Rightarrow> (Inl e, h, log1)
         | (Inr current_size, log1) \<Rightarrow>
             (let headers = make_headers (heap (fs h)) (Some (HInt l)) None None None [];
                  url = make_url (heap (fs h)) (Some (fpath h));
                  params = [(''action'', PStr ''append''), (''position'', PInt 0)];
                  (response, log2) = send prov log1
                     \<lparr>rq_verb = PATCH, rq_url = url, rq_headers = headers, rq_params = params,
                      rq_data = Bytes data\<rparr>
              in case check_status response of
                   Inl e \<Rightarrow> (Inl e, h, log2)
                 | Inr _ \<Rightarrow>
                     (let params = [(''action'', PStr ''flush''), (''position'', PInt l)];
                          headers = make_headers (heap (fs h)) (Some (HInt 0)) None
                                      (Some ''application/octet-stream'') None [];
                          (response, log3) = send prov log2
                             \<lparr>rq_verb = PATCH, rq_url = url, rq_headers = headers,
                              rq_params = params, rq_data = NoData\<rparr>
                      in (check_status response, h, log3))))"

text \<open>
  \<^verbatim>\<open>connect\<close>: the token type is stored as soon as it is read; the token itself only
  after \<^verbatim>\<open>expires_in\<close> and \<^verbatim>\<open>ext_expires_in\<close> have been read. The filesystem object
  is updated in place, in the heap.
\<close>

definition connect ::
  "provider \<Rightarrow> heap \<Rightarrow> nat \<Rightarrow> request list \<Rightarrow> (error + unit) \<times> heap \<times> request list" where
  "connect prov heap self log =
     (let url = ''https://login.microsoftonline.com/'' @ tenant_id (heap self) @
                ''/oauth2/v2.0/token'';
          header = [(''Content-Type'', HStr ''application/x-www-form-urlencoded'')];
          data = [(''client_id'', client_id (heap self)),
                  (''client_secret'', client_secret (heap self)),
                  (''scope'', ''https://storage.azure.com/.default''),
                  (''grant_type'', ''client_credentials'')];
          (reply, log') = send prov log
             \<lparr>rq_verb = POST, rq_url = url, rq_headers = header, rq_params = [],
              rq_data = Form data\<rparr>
      in case json reply of
           None \<Rightarrow> (Inl ValueError, heap, log')
         | Some response \<Rightarrow>
             (case py_getitem response ''token_type'' of
                Inl e \<Rightarrow> (Inl e, heap, log')
              | Inr tt \<Rightarrow>
                  (let heap = heap(self := (heap self)\<lparr>token_type := tt\<rparr>)
                   in case py_getitem response ''expires_in'' of
                        Inl e \<Rightarrow> (Inl e, heap, log')
                      | Inr expires_in \<Rightarrow>
                          (case py_getitem response ''ext_expires_in'' of
                             Inl e \<Rightarrow> (Inl e, heap, log')
                           | Inr ext_expires_in \<Rightarrow>
                               (case py_getitem response ''access_token'' of
                                  Inl e \<Rightarrow> (Inl e, heap, log')
                                | Inr tok \<Rightarrow>
                                    (Inr (), heap(self := (heap self)\<lparr>token := tok\<rparr>),
                                     log'))))))"

section \<open>The buffered-file driver\<close>








section \<open>AzureDatalakeFileSystem (Gen1)\<close>

text \<open>
  The Gen1 class wraps an \<^verbatim>\<open>AzureDLFileSystem\<close> of the azure-datalake-store library;
  \<open>lib_info\<close> is that object's \<^verbatim>\<open>info\<close> method.
\<close>

record adl =
  store_name :: string
  lib_info :: "string \<Rightarrow> bool \<Rightarrow> error + pyval"

text \<open>\<^verbatim>\<open>x[k] = v\<close> with a string key.\<close>

fun py_setitem :: "pyval \<Rightarrow> string \<Rightarrow> pyval \<Rightarrow> error + pyval" where
  "py_setitem (PDict kvs) k v = Inr (PDict (AList.update k v kvs))"
| "py_setitem _ k v = Inl TypeError"

text \<open>\<^verbatim>\<open>AzureDatalakeFileSystem.info\<close>.\<close>

definition info_adl :: "adl \<Rightarrow> string \<Rightarrow> bool \<Rightarrow> error + pyval" where
  "info_adl self path invalidate_cache =
     (case lib_info self path invalidate_cache of
        Inl e \<Rightarrow> Inl e
      | Inr info' \<Rightarrow>
          (case py_getitem info' ''length'' of
             Inl e \<Rightarrow> Inl e
           | Inr n \<Rightarrow> py_setitem info' ''size'' n))"

text \<open>
  Reading a name inside a method: the local variables first; the module binds no global
  \<^verbatim>\<open>adl_path\<close> and Python has no such built-in, so a name that is not local is a
  \<open>NameError\<close>.
\<close>

definition lookup_name :: "(string \<times> string) list \<Rightarrow> string \<Rightarrow> error + string" where
  "lookup_name locals name =
     (case map_of locals name of None \<Rightarrow> Inl (NameError name) | Some v \<Rightarrow> Inr v)"

text \<open>
  \<^verbatim>\<open>AzureDatalakeFileSystem.size\<close>: \<^verbatim>\<open>return self.info(adl_path)['length']\<close>, in a
  scope whose only string-valued local is \<^verbatim>\<open>path\<close>.
\<close>

definition size_adl :: "adl \<Rightarrow> string \<Rightarrow> error + pyval" where
  "size_adl self path =
     (case lookup_name [(''path'', path)] ''adl_path'' of
        Inl e \<Rightarrow> Inl e
      | Inr adl_path \<Rightarrow>
          (case info_adl self adl_path True of
             Inl e \<Rightarrow> Inl e
           | Inr info' \<Rightarrow> py_getitem info' ''length''))"

section \<open>Notions used to state the properties\<close>

text \<open>The GET that \<^verbatim>\<open>ls\<close> issues and the HEAD that \<^verbatim>\<open>info\<close> issues.\<close>

definition ls_request :: "abfs \<Rightarrow> string \<Rightarrow> string \<Rightarrow> bool \<Rightarrow> request" where
  "ls_request self path resource recursive =
     \<lparr>rq_verb = GET, rq_url = make_url self None,
      rq_headers = make_headers self None (Some ''application/x-www-form-urlencoded'')
                     None None [],
      rq_params =
        (let payload = [(''resource'', PStr resource), (''recursive'', PBool recursive)];
             directory = parse_path (strip_protocol self path)
         in if directory \<noteq> PNone then AList.update ''directory'' directory payload
            else payload),
      rq_data = NoData\<rparr>"

definition info_request :: "abfs \<Rightarrow> string \<Rightarrow> request" where
  "info_request self path =
     \<lparr>rq_verb = HEAD, rq_url = make_url self (Some (strip_protocol self path)),
      rq_headers = make_headers self None (Some ''application/x-www-form-urlencoded'')
                     None None [],
      rq_params = [(''action'', PStr ''getStatus'')],
      rq_data = NoData\<rparr>"

text \<open>The \<^verbatim>\<open>Authorization\<close> header of a request.\<close>

definition auth :: "request \<Rightarrow> hval option" where
  "auth rq = map_of (rq_headers rq) ''Authorization''"

text \<open>The requests a call added to the log.\<close>

definition issued :: "request list \<Rightarrow> request list \<Rightarrow> request list" where
  "issued log log' = drop (length log) log'"



section \<open>Example objects\<close>

definition example_fs :: abfs where
  "example_fs =
     \<lparr>tenant_id = ''tenant'', client_id = ''client'', client_secret = ''secret'',
      storage_account = ''account'', filesystem = ''data'', token = PStr ''token0'',
      token_type = PStr ''Bearer'', dns_suffix = ''.dfs.core.windows.net'',
      root_marker = []\<rparr>"

definition example_heap :: heap where
  "example_heap r = example_fs"

definition example_read_handle :: handle where
  "example_read_handle =
     \<lparr>fs = 0, fpath = ''dir/a'', mode = ''rb'', buffer = \<lparr>getvalue = [], tell = 0\<rparr>\<rparr>"

text \<open>A provider that answers every request with status 404 and an error body.\<close>

definition not_found_provider :: provider where
  "not_found_provider log rq =
     \<lparr>status_code = 404, content = ''PathNotFound'',
      json = Some (PDict [(''error'', PDict [(''code'', PStr ''PathNotFound'')])]),
      resp_headers = Map.empty\<rparr>"

text \<open>Listing responses with status 200: two paths, one path, and a negative
  \<^verbatim>\<open>contentLength\<close>.\<close>

definition two_paths_response :: response where
  "two_paths_response =
     \<lparr>status_code = 200, content = [],
      json = Some (PDict [(''paths'', PList
               [PDict [(''name'', PStr ''dir/a''), (''contentLength'', PStr ''3'')],
                PDict [(''name'', PStr ''dir/b''), (''isDirectory'', PStr ''true'')]])]),
      resp_headers = Map.empty\<rparr>"

definition one_path_response :: response where
  "one_path_response =
     \<lparr>status_code = 200, content = [],
      json = Some (PDict [(''paths'', PList
               [PDict [(''name'', PStr ''dir/a''), (''contentLength'', PStr ''3'')]])]),
      resp_headers = Map.empty\<rparr>"


text \<open>
  A listing response that reports \<^verbatim>\<open>PathNotFound\<close> in its body under status 200, and
  a provider that answers a HEAD with status 404 and everything else with that response.
\<close>

definition soft_not_found_response :: response where
  "soft_not_found_response =
     \<lparr>status_code = 200, content = ''PathNotFound'',
      json = Some (PDict [(''error'', PDict [(''code'', PStr ''PathNotFound'')])]),
      resp_headers = Map.empty\<rparr>"

definition soft_not_found_provider :: provider where
  "soft_not_found_provider log rq =
     (if rq_verb rq = HEAD
      then \<lparr>status_code = 404, content = [], json = None, resp_headers = Map.empty\<rparr>
      else soft_not_found_response)"

text \<open>
  A provider that answers the token request with a fresh access token (\<^verbatim>\<open>token1\<close> for
  the first request it sees, \<^verbatim>\<open>token2\<close> afterwards) and every other request with
  status 200 and the headers of an empty file.
\<close>

definition example_provider :: provider where
  "example_provider log rq =
     (if rq_verb rq = POST
      then \<lparr>status_code = 200, content = [],
            json = Some (PDict [(''token_type'', PStr ''Bearer''), (''expires_in'', PInt 3599),
                                (''ext_expires_in'', PInt 3599),
                                (''access_token'',
                                 PStr (if log = [] then ''token1'' else ''token2''))]),
            resp_headers = Map.empty\<rparr>
      else \<lparr>status_code = 200, content = ''data'', json = None,
            resp_headers = [''Content-Length'' \<mapsto> ''0'', ''x-ms-resource-type'' \<mapsto> ''file'']\<rparr>)"

definition example_write_handle :: handle where
  "example_write_handle =
     \<lparr>fs = 0, fpath = ''dir/a'', mode = ''wb'',
      buffer = \<lparr>getvalue = ''hello world'', tell = 11\<rparr>\<rparr>"

section \<open>Range reads\<close>

lemma fetch_range_returns_content:
  "\<exists>rq. rq_verb rq = GET \<and> snd (fetch_range prov heap h start end' log) = log @ [rq] \<and>
        fst (fetch_range prov heap h start end' log) = Inr (content (prov log rq))"
  by (simp add: fetch_range_def send_def Let_def)

text \<open>
  C1. The claim: a \<^verbatim>\<open>fetchRange\<close> whose GET comes back with a non-success status
  aborts with a Transport error instead of returning the body as file data. The code
  never looks at the status: against a provider that answers 404 with the body
  \<^verbatim>\<open>PathNotFound\<close>, every call of \<open>fetch_range\<close> returns that body as the data.
\<close>

theorem fetch_range_returns_error_body:
  "fst (fetch_range not_found_provider heap h start end' log) = Inr ''PathNotFound''"
  by (simp add: fetch_range_def send_def not_found_provider_def Let_def)

theorem fetch_range_returns_error_body_witness:
  "fst (fetch_range not_found_provider example_heap example_read_handle (Some 0) (Some 10) [])
   = Inr ''PathNotFound''"
  using fetch_range_returns_error_body [of example_heap example_read_handle "Some 0" "Some 10" "[]"]
  by simp

lemma fetch_range_range_header:
  "start \<noteq> None \<or> end' \<noteq> None \<Longrightarrow>
   map (\<lambda>rq. map_of (rq_headers rq) ''Range'') (snd (fetch_range prov heap h start end' []))
     = [Some (HStr (''('' @ str_int (or_zero start) @ '', '' @ str_int (or_zero end' - 1) @ '')''))]"
  by (simp add: fetch_range_def send_def Let_def make_headers_def str_tuple2_def)

text \<open>
  C2. The claim: for \<open>start < end\<close> the GET carries the header
  \<^verbatim>\<open>Range: bytes=start-(end-1)\<close>. The code passes the pair \<^verbatim>\<open>(start, end-1)\<close> to
  \<^verbatim>\<open>_make_headers\<close>, which stores \<^verbatim>\<open>str(range)\<close>: for \<open>start = 0\<close> and \<open>end = 10\<close> the
  one request issued has the Range header \<^verbatim>\<open>(0, 9)\<close>, not \<^verbatim>\<open>bytes=0-9\<close>.
\<close>

theorem fetch_range_0_10_range_header:
  "map (\<lambda>rq. map_of (rq_headers rq) ''Range'')
     (snd (fetch_range prov heap h (Some 0) (Some 10) []))
   = [Some (HStr ''(0, 9)'')]"
  by (simp add: fetch_range_def send_def Let_def make_headers_def str_tuple2_def or_zero_def
      str_int_def str_nat.simps digit_char_def)

theorem fetch_range_0_10_range_header_witness:
  "map (\<lambda>rq. map_of (rq_headers rq) ''Range'')
     (snd (fetch_range not_found_provider example_heap example_read_handle (Some 0) (Some 10) []))
   = [Some (HStr ''(0, 9)'')]"
  using fetch_range_0_10_range_header [of not_found_provider example_heap example_read_handle]
  by simp

section \<open>Uploads\<close>



section \<open>Gen1 size\<close>

text \<open>
  C10. For every path and every underlying filesystem object, also one whose
  \<^verbatim>\<open>info\<close> succeeds, \<^verbatim>\<open>AzureDatalakeFileSystem.size\<close> raises a \<open>NameError\<close> for
  \<^verbatim>\<open>adl_path\<close> and returns no size.
\<close>

theorem size_adl_name_error:
  "size_adl self path = Inl (NameError ''adl_path'')"
  by (simp add: size_adl_def lookup_name_def)

section \<open>Listing\<close>

lemma ls_eq:
  "ls prov self path detail resource recursive log =
     (ls_response (prov log (ls_request self path resource recursive)) detail,
      log @ [ls_request self path resource recursive])"
  by (simp add: ls_def ls_request_def send_def Let_def)

lemmas ls_eval = ls_eq ls_response_def check_status_def codes_ok_def raise_for_status_def
  ls_listing_def ls_except_def AList.delete_eq

lemmas int_eval = parse_nat_def is_digit_def nat_of_digits_def

lemma key_in_iff: "k \<in> set (map fst kvs) \<longleftrightarrow> map_of kvs k \<noteq> None"
  by (simp add: map_of_eq_None_iff)




lemma map_result_list_all2:
  "map_result f xs = Inr ys \<Longrightarrow> list_all2 (\<lambda>x y. f x = Inr y) xs ys"
  by (induction xs arbitrary: ys) (auto split: sum.splits)








text \<open>
  The claim C8 as stated asks for a one-element sequence when the provider reports
  exactly one path. In detail mode the code returns \<^verbatim>\<open>pathlist[0]\<close>, the bare entry.
\<close>

theorem ls_single_path_counterexample:
  "fst (ls (\<lambda>log rq. one_path_response) example_fs ''dir'' True ''filesystem'' False [])
     = Inr (PDict [(''name'', PStr ''dir/a''), (''type'', PStr ''file''), (''size'', PInt 3)]) \<and>
   fst (ls (\<lambda>log rq. one_path_response) example_fs ''dir'' True ''filesystem'' False [])
     \<noteq> Inr (PList [PDict [(''name'', PStr ''dir/a''), (''type'', PStr ''file''), (''size'', PInt 3)]])"
  by (simp add: ls_eval one_path_response_def int_eval)

lemma ls_listing_names:
  assumes "map_result (\<lambda>p. py_getitem p ''name'') ps = Inr names"
      and "map_of kvs ''paths'' = Some (PList ps)"
  shows "ls_listing (PDict kvs) False = Inr (PList names)"
  using assms by (cases ps) (auto simp add: ls_listing_def split: sum.splits)

lemma ls_listing_entries:
  assumes "map_result normalize_entry ps = Inr es"
      and "map_of kvs ''paths'' = Some (PList ps)"
  shows "ls_listing (PDict kvs) True = Inr (case es of [e] \<Rightarrow> e | _ \<Rightarrow> PList es)"
  using assms by (cases ps) (auto simp add: ls_listing_def split: sum.splits list.splits)

text \<open>
  C8, as amended. On a listing response that passes the status check and whose body
  holds a list under \<^verbatim>\<open>paths\<close>: with \<^verbatim>\<open>detail=False\<close>, \<^verbatim>\<open>ls\<close> returns the sequence of
  the paths' names; with \<^verbatim>\<open>detail=True\<close> it returns the sequence of the normalized
  entries, except that for exactly one path it returns that entry bare, not a
  one-element sequence.
\<close>

theorem ls_result_shape:
  assumes "check_status response = Inr ()"
      and "json response = Some (PDict kvs)"
      and "map_of kvs ''paths'' = Some (PList ps)"
  shows "(map_result (\<lambda>p. py_getitem p ''name'') ps = Inr names \<longrightarrow>
            fst (ls (\<lambda>log rq. response) self path False resource recursive log) = Inr (PList names)) \<and>
         (map_result normalize_entry ps = Inr es \<longrightarrow>
            fst (ls (\<lambda>log rq. response) self path True resource recursive log)
              = Inr (case es of [e] \<Rightarrow> e | _ \<Rightarrow> PList es))"
  using assms
  by (auto simp add: ls_eq ls_response_def ls_listing_names ls_listing_entries)

theorem ls_result_shape_witness:
  "fst (ls (\<lambda>log rq. two_paths_response) example_fs ''dir'' False ''filesystem'' False [])
     = Inr (PList [PStr ''dir/a'', PStr ''dir/b'']) \<and>
   fst (ls (\<lambda>log rq. two_paths_response) example_fs ''dir'' True ''filesystem'' False [])
     = Inr (PList [PDict [(''name'', PStr ''dir/a''), (''type'', PStr ''file''), (''size'', PInt 3)],
                   PDict [(''name'', PStr ''dir/b''), (''isDirectory'', PStr ''true''),
                          (''type'', PStr ''directory''), (''size'', PInt 0)]])"
proof -
  let ?ps = "[PDict [(''name'', PStr ''dir/a''), (''contentLength'', PStr ''3'')],
              PDict [(''name'', PStr ''dir/b''), (''isDirectory'', PStr ''true'')]]"
  have a: "check_status two_paths_response = Inr ()"
    by (simp add: check_status_def codes_ok_def two_paths_response_def)
  have b: "json two_paths_response = Some (PDict [(''paths'', PList ?ps)])"
    by (simp add: two_paths_response_def)
  have c: "map_of [(''paths'', PList ?ps)] ''paths'' = Some (PList ?ps)"
    by simp
  have d: "map_result (\<lambda>p. py_getitem p ''name'') ?ps = Inr [PStr ''dir/a'', PStr ''dir/b'']"
    by simp
  have e: "map_result normalize_entry ?ps
     = Inr [PDict [(''name'', PStr ''dir/a''), (''type'', PStr ''file''), (''size'', PInt 3)],
            PDict [(''name'', PStr ''dir/b''), (''isDirectory'', PStr ''true''),
                          (''type'', PStr ''directory''), (''size'', PInt 0)]]"
    by (simp add: AList.delete_eq int_eval)
  from ls_result_shape [OF a b c, of "[PStr ''dir/a'', PStr ''dir/b'']" example_fs "''dir''" "''filesystem''" False "[]"
      "[PDict [(''name'', PStr ''dir/a''), (''type'', PStr ''file''), (''size'', PInt 3)],
            PDict [(''name'', PStr ''dir/b''), (''isDirectory'', PStr ''true''),
                          (''type'', PStr ''directory''), (''size'', PInt 0)]]"] d e
  show ?thesis by simp
qed

section \<open>Missing paths\<close>

lemma info_eq:
  "info prov self path log =
     (let response = prov log (info_request self path);
          log1 = log @ [info_request self path]
      in if status_code response \<noteq> codes_ok
         then (case ls prov self (strip_protocol self path) False ''filesystem'' False log1 of
                 (Inr detail, log2) \<Rightarrow> (Inr detail, log2)
               | (Inl e, log2) \<Rightarrow>
                   (case raise_for_status response of
                      Inl e' \<Rightarrow> (Inl e', log2)
                    | Inr _ \<Rightarrow> (info_status response (strip_protocol self path), log2)))
         else (info_status response (strip_protocol self path), log1))"
  by (simp add: info_def info_request_def send_def Let_def)

lemma ls_path_not_found:
  assumes "check_status response = Inr ()"
      and "json response = Some (PDict kvs)"
      and "map_of kvs ''paths'' = None"
      and "map_of kvs ''error'' = Some err"
      and "py_getitem err ''code'' = Inr (PStr ''PathNotFound'')"
  shows "ls_response response detail = Inr (PList [])"
proof -
  have "ls_listing (PDict kvs) detail = Inl KeyError"
    using assms(3) by (simp add: ls_listing_def)
  moreover have "''error'' \<in> set (map fst kvs)"
    using assms(4) map_of_eq_None_iff [of kvs "''error''"] by auto
  then have "ls_except (PDict kvs) = Inr (PList [])"
    using assms(4,5) by (simp add: ls_except_def)
  ultimately show ?thesis
    using assms(1,2) by (simp add: ls_response_def)
qed

text \<open>
  C6, as amended. When the listing response passes the status check and its body has no
  \<^verbatim>\<open>paths\<close> and an \<^verbatim>\<open>error\<close> whose code is \<^verbatim>\<open>'PathNotFound'\<close>, \<^verbatim>\<open>ls\<close> returns the
  empty sequence. \<^verbatim>\<open>info\<close>, when its HEAD is not OK, falls back to that listing: it
  returns what the listing returns, the empty sequence included, and it raises the HTTP
  error of its HEAD when the listing raises and the status of the HEAD is in the 4xx or
  5xx class.
\<close>

theorem path_not_found_list_and_info:
  assumes "head_response = prov log (info_request self path)"
      and "fallback = fst (ls prov self (strip_protocol self path) False ''filesystem'' False
                             (log @ [info_request self path]))"
  shows "(check_status response = Inr () \<and> json response = Some (PDict kvs) \<and>
          map_of kvs ''paths'' = None \<and> map_of kvs ''error'' = Some err \<and>
          py_getitem err ''code'' = Inr (PStr ''PathNotFound'')
            \<longrightarrow> fst (ls (\<lambda>log rq. response) self path detail resource recursive log) = Inr (PList [])) \<and>
         (status_code head_response \<noteq> codes_ok \<and> fallback = Inr v
            \<longrightarrow> fst (info prov self path log) = Inr v) \<and>
         (400 \<le> status_code head_response \<and> status_code head_response < 600 \<and> fallback = Inl e
            \<longrightarrow> fst (info prov self path log)
                  = Inl (HTTPError (status_code head_response) (content head_response)))"
proof (intro conjI impI)
  assume "check_status response = Inr () \<and> json response = Some (PDict kvs) \<and>
          map_of kvs ''paths'' = None \<and> map_of kvs ''error'' = Some err \<and>
          py_getitem err ''code'' = Inr (PStr ''PathNotFound'')"
  then show "fst (ls (\<lambda>log rq. response) self path detail resource recursive log) = Inr (PList [])"
    by (simp add: ls_eq ls_path_not_found)
next
  assume "status_code head_response \<noteq> codes_ok \<and> fallback = Inr v"
  then show "fst (info prov self path log) = Inr v"
    using assms
    by (cases "ls prov self (strip_protocol self path) False ''filesystem'' False
                 (log @ [info_request self path])")
       (simp add: info_eq Let_def)
next
  assume "400 \<le> status_code head_response \<and> status_code head_response < 600 \<and> fallback = Inl e"
  then show "fst (info prov self path log)
                  = Inl (HTTPError (status_code head_response) (content head_response))"
    using assms
    by (cases "ls prov self (strip_protocol self path) False ''filesystem'' False
                 (log @ [info_request self path])")
       (simp add: info_eq Let_def codes_ok_def raise_for_status_def)
qed

theorem path_not_found_list_and_info_witness:
  "fst (ls (\<lambda>log rq. soft_not_found_response) example_fs ''missing'' False ''filesystem'' False [])
     = Inr (PList []) \<and>
   fst (info soft_not_found_provider example_fs ''missing'' []) = Inr (PList []) \<and>
   fst (info not_found_provider example_fs ''missing'' []) = Inl (HTTPError 404 ''PathNotFound'')"
proof -
  have a: "check_status soft_not_found_response = Inr () \<and>
           json soft_not_found_response
             = Some (PDict [(''error'', PDict [(''code'', PStr ''PathNotFound'')])]) \<and>
           map_of [(''error'', PDict [(''code'', PStr ''PathNotFound'')])] ''paths'' = None \<and>
           map_of [(''error'', PDict [(''code'', PStr ''PathNotFound'')])] ''error''
             = Some (PDict [(''code'', PStr ''PathNotFound'')]) \<and>
           py_getitem (PDict [(''code'', PStr ''PathNotFound'')]) ''code'' = Inr (PStr ''PathNotFound'')"
    by (simp add: soft_not_found_response_def check_status_def codes_ok_def)
  have b: "status_code (soft_not_found_provider [] (info_request example_fs ''missing'')) \<noteq> codes_ok \<and>
           fst (ls soft_not_found_provider example_fs (strip_protocol example_fs ''missing'') False
                  ''filesystem'' False ([] @ [info_request example_fs ''missing'']))
             = Inr (PList [])"
    by (simp add: ls_eval soft_not_found_provider_def soft_not_found_response_def
        info_request_def ls_request_def)
  have c: "400 \<le> status_code (not_found_provider [] (info_request example_fs ''missing'')) \<and>
           status_code (not_found_provider [] (info_request example_fs ''missing'')) < 600 \<and>
           fst (ls not_found_provider example_fs (strip_protocol example_fs ''missing'') False
                  ''filesystem'' False ([] @ [info_request example_fs ''missing'']))
             = Inl (HTTPError 404 ''PathNotFound'')"
    by (simp add: ls_eval not_found_provider_def)
  have d: "status_code (not_found_provider [] (info_request example_fs ''missing'')) = 404"
          "content (not_found_provider [] (info_request example_fs ''missing'')) = ''PathNotFound''"
    by (simp_all add: not_found_provider_def)
  from path_not_found_list_and_info [OF refl refl, where response = soft_not_found_response
         and kvs = "[(''error'', PDict [(''code'', PStr ''PathNotFound'')])]"
         and err = "PDict [(''code'', PStr ''PathNotFound'')]" and self = example_fs
         and path = "''missing''" and detail = False and resource = "''filesystem''"
         and recursive = False and log = "[]" and prov = soft_not_found_provider
         and v = "PList []"] a b
  have 1: "fst (ls (\<lambda>log rq. soft_not_found_response) example_fs ''missing'' False ''filesystem'' False [])
             = Inr (PList [])"
    and 2: "fst (info soft_not_found_provider example_fs ''missing'' []) = Inr (PList [])"
    by blast+
  from path_not_found_list_and_info [OF refl refl, where self = example_fs
         and path = "''missing''" and log = "[]" and prov = not_found_provider
         and e = "HTTPError 404 ''PathNotFound''"] c d
  have 3: "fst (info not_found_provider example_fs ''missing'' []) = Inl (HTTPError 404 ''PathNotFound'')"
    by simp
  from 1 2 3 show ?thesis by blast
qed

text \<open>
  The claim C6 as stated has \<^verbatim>\<open>ls\<close> return the empty sequence and \<^verbatim>\<open>info\<close> fail
  whenever the provider reports \<^verbatim>\<open>PathNotFound\<close>. Against the provider that reports it
  under status 404, \<^verbatim>\<open>ls\<close> raises the HTTP error. Against the provider that reports it to
  the listing under status 200, where \<^verbatim>\<open>ls\<close> does return the empty sequence, \<^verbatim>\<open>info\<close>
  returns the empty sequence too.
\<close>

theorem path_not_found_counterexample:
  "fst (ls not_found_provider example_fs ''missing'' False ''filesystem'' False [])
     = Inl (HTTPError 404 ''PathNotFound'') \<and>
   fst (info soft_not_found_provider example_fs ''missing'' []) = Inr (PList [])"
  by (simp add: info_eq ls_eval not_found_provider_def soft_not_found_provider_def
      soft_not_found_response_def info_request_def ls_request_def)

section \<open>Credentials\<close>

lemma make_headers_auth:
  "map_of (make_headers self cl ct mt rg []) ''Authorization'' = Some (HBearer (token self))"
  by (simp add: make_headers_def Let_def update_conv' split: option.splits)

lemma auth_ls_request: "auth (ls_request self path resource recursive) = Some (HBearer (token self))"
  by (simp add: auth_def ls_request_def make_headers_auth)

lemma auth_info_request: "auth (info_request self path) = Some (HBearer (token self))"
  by (simp add: auth_def info_request_def make_headers_auth)

lemma issued_append: "issued log (log @ new) = new"
  by (simp add: issued_def)

lemma ls_issued:
  "snd (ls prov self path detail resource recursive log) = log @ [ls_request self path resource recursive]"
  by (simp add: ls_eq)

lemma info_issued:
  "\<exists>new. snd (info prov self path log) = log @ new \<and>
         list_all (\<lambda>rq. auth rq = Some (HBearer (token self))) new"
proof (cases "status_code (prov log (info_request self path)) = codes_ok")
  case True
  then have "snd (info prov self path log) = log @ [info_request self path]"
    by (simp add: info_eq Let_def)
  then show ?thesis by (simp add: auth_info_request)
next
  case False
  then have "snd (info prov self path log)
      = log @ [info_request self path, ls_request self (strip_protocol self path) ''filesystem'' False]"
    by (simp add: info_eq ls_eq Let_def split: sum.splits)
  then show ?thesis by (simp add: auth_info_request auth_ls_request)
qed

lemma fetch_range_issued:
  "\<exists>new. snd (fetch_range prov heap h start end' log) = log @ new \<and>
         list_all (\<lambda>rq. auth rq = Some (HBearer (token (heap (fs h))))) new"
  by (simp add: fetch_range_def send_def Let_def auth_def make_headers_auth)

lemma initiate_upload_issued:
  "\<exists>new. snd (initiate_upload prov heap h log) = log @ new \<and>
         list_all (\<lambda>rq. auth rq = Some (HBearer (token (heap (fs h))))) new"
  by (simp add: initiate_upload_def send_def Let_def auth_def make_headers_auth)

lemma upload_single_shot_issued:
  "\<exists>new. snd (upload_single_shot prov heap h final log) = log @ new \<and>
         list_all (\<lambda>rq. auth rq = Some (HBearer (token (heap (fs h))))) new"
  by (simp add: upload_single_shot_def send_def Let_def auth_def make_headers_auth update_conv')

lemma get_size_issued:
  "\<exists>new. snd (get_size prov heap h log) = log @ new \<and>
         list_all (\<lambda>rq. auth rq = Some (HBearer (token (heap (fs h))))) new"
  using info_issued [of prov "heap (fs h)" "fpath h" log]
  by (cases "info prov (heap (fs h)) (fpath h) log") (auto simp add: get_size_def split: sum.splits)

lemma upload_chunk_issued:
  "\<exists>new. snd (snd (upload_chunk prov heap h final log)) = log @ new \<and>
         list_all (\<lambda>rq. auth rq = Some (HBearer (token (heap (fs h))))) new"
proof -
  let ?h = "h\<lparr>buffer := (buffer h)\<lparr>tell := 0\<rparr>\<rparr>"
  obtain r log1 where g: "get_size prov heap ?h log = (r, log1)"
    by (cases "get_size prov heap ?h log")
  from get_size_issued [of prov heap ?h log] g obtain new where
    new: "log1 = log @ new" "list_all (\<lambda>rq. auth rq = Some (HBearer (token (heap (fs h))))) new"
    by auto
  show ?thesis
    using g new
    by (cases r)
       (auto simp add: upload_chunk_def send_def Let_def auth_def make_headers_auth
             split: sum.splits)
qed

lemma connect_success:
  assumes "connect prov heap self log = (Inr (), heap', log')"
  shows "\<exists>kvs tok. json (prov log (last log')) = Some (PDict kvs) \<and>
           map_of kvs ''access_token'' = Some tok \<and> token (heap' self) = tok"
proof -
  let ?rq = "\<lparr>rq_verb = POST,
              rq_url = ''https://login.microsoftonline.com/'' @ tenant_id (heap self) @
                       ''/oauth2/v2.0/token'',
              rq_headers = [(''Content-Type'', HStr ''application/x-www-form-urlencoded'')],
              rq_params = [],
              rq_data = Form [(''client_id'', client_id (heap self)),
                              (''client_secret'', client_secret (heap self)),
                              (''scope'', ''https://storage.azure.com/.default''),
                              (''grant_type'', ''client_credentials'')]\<rparr>"
  from assms have l: "log' = log @ [?rq]"
    by (auto simp add: connect_def send_def Let_def split: option.splits sum.splits)
  from assms obtain body where b: "json (prov log ?rq) = Some body"
    by (auto simp add: connect_def send_def Let_def split: option.splits sum.splits)
  from assms b obtain tok where t: "py_getitem body ''access_token'' = Inr tok" "token (heap' self) = tok"
    by (auto simp add: connect_def send_def Let_def split: option.splits sum.splits)
  from t(1) obtain kvs where "body = PDict kvs" "map_of kvs ''access_token'' = Some tok"
    by (cases body) (auto split: option.splits)
  with b t l show ?thesis by simp
qed

text \<open>
  C9. After \<^verbatim>\<open>connect\<close> has run a second time on a filesystem, its token is the access
  token of the second reply, and every request then issued by that filesystem
  (\<^verbatim>\<open>ls\<close>, \<^verbatim>\<open>info\<close>) or by a handle bound to it (\<^verbatim>\<open>_fetch_range\<close>,
  \<^verbatim>\<open>_initiate_upload\<close>, \<^verbatim>\<open>_upload_chunk\<close>, \<^verbatim>\<open>upload_single_shot\<close>) carries the
  \<^verbatim>\<open>Authorization\<close> header built from that token. The handle holds the address of the
  filesystem, whatever the heap held when the handle was made.
\<close>

theorem requests_after_reconnect_use_new_token:
  assumes "connect prov heap0 self log0 = (Inr (), heap1, log1)"
      and "connect prov heap1 self log1 = (Inr (), heap2, log2)"
      and "fs h = self"
  shows "\<exists>kvs tok. json (prov log1 (last log2)) = Some (PDict kvs) \<and>
           map_of kvs ''access_token'' = Some tok \<and>
           token (heap2 self) = tok \<and>
           list_all (\<lambda>rq. auth rq = Some (HBearer tok))
             (issued log (snd (ls prov (heap2 self) path detail resource recursive log))) \<and>
           list_all (\<lambda>rq. auth rq = Some (HBearer tok))
             (issued log (snd (info prov (heap2 self) path log))) \<and>
           list_all (\<lambda>rq. auth rq = Some (HBearer tok))
             (issued log (snd (fetch_range prov heap2 h start end' log))) \<and>
           list_all (\<lambda>rq. auth rq = Some (HBearer tok))
             (issued log (snd (initiate_upload prov heap2 h log))) \<and>
           list_all (\<lambda>rq. auth rq = Some (HBearer tok))
             (issued log (snd (snd (upload_chunk prov heap2 h final log)))) \<and>
           list_all (\<lambda>rq. auth rq = Some (HBearer tok))
             (issued log (snd (upload_single_shot prov heap2 h final log)))"
proof -
  from connect_success [OF assms(2)] obtain kvs tok where
    t: "json (prov log1 (last log2)) = Some (PDict kvs)" "map_of kvs ''access_token'' = Some tok"
       "token (heap2 self) = tok"
    by blast
  have 1: "list_all (\<lambda>rq. auth rq = Some (HBearer tok))
             (issued log (snd (ls prov (heap2 self) path detail resource recursive log)))"
    by (simp add: ls_issued issued_append auth_ls_request t(3))
  have 2: "list_all (\<lambda>rq. auth rq = Some (HBearer tok))
             (issued log (snd (info prov (heap2 self) path log)))"
    using info_issued [of prov "heap2 self" path log] t(3) by (auto simp add: issued_append)
  have 3: "list_all (\<lambda>rq. auth rq = Some (HBearer tok))
             (issued log (snd (fetch_range prov heap2 h start end' log)))"
    using fetch_range_issued [of prov heap2 h start end' log] t(3) assms(3)
    by (auto simp add: issued_append)
  have 4: "list_all (\<lambda>rq. auth rq = Some (HBearer tok))
             (issued log (snd (initiate_upload prov heap2 h log)))"
    using initiate_upload_issued [of prov heap2 h log] t(3) assms(3)
    by (auto simp add: issued_append)
  have 5: "list_all (\<lambda>rq. auth rq = Some (HBearer tok))
             (issued log (snd (snd (upload_chunk prov heap2 h final log))))"
    using upload_chunk_issued [of prov heap2 h final log] t(3) assms(3)
    by (auto simp add: issued_append)
  have 6: "list_all (\<lambda>rq. auth rq = Some (HBearer tok))
             (issued log (snd (upload_single_shot prov heap2 h final log)))"
    using upload_single_shot_issued [of prov heap2 h final log] t(3) assms(3)
    by (auto simp add: issued_append)
  from t 1 2 3 4 5 6 show ?thesis by blast
qed

theorem requests_after_reconnect_use_new_token_witness:
  "\<exists>heap1 log1 heap2 log2.
     connect example_provider example_heap 0 [] = (Inr (), heap1, log1) \<and>
     connect example_provider heap1 0 log1 = (Inr (), heap2, log2) \<and>
     token (heap1 0) = PStr ''token1'' \<and>
     token (heap2 0) = PStr ''token2'' \<and>
     list_all (\<lambda>rq. auth rq = Some (HBearer (PStr ''token2'')))
       (issued log2 (snd (ls example_provider (heap2 0) ''dir'' True ''filesystem'' False log2))) \<and>
     list_all (\<lambda>rq. auth rq = Some (HBearer (PStr ''token2'')))
       (issued log2 (snd (fetch_range example_provider heap2 example_read_handle
                            (Some 0) (Some 10) log2))) \<and>
     list_all (\<lambda>rq. auth rq = Some (HBearer (PStr ''token2'')))
       (issued log2 (snd (snd (upload_chunk example_provider heap2 example_write_handle True log2))))"
proof -
  define heap1 where "heap1 = fst (snd (connect example_provider example_heap 0 []))"
  define log1 where "log1 = snd (snd (connect example_provider example_heap 0 []))"
  define heap2 where "heap2 = fst (snd (connect example_provider heap1 0 log1))"
  define log2 where "log2 = snd (snd (connect example_provider heap1 0 log1))"
  have c1: "connect example_provider example_heap 0 [] = (Inr (), heap1, log1)"
    by (simp add: heap1_def log1_def connect_def send_def example_provider_def Let_def)
  have c2: "connect example_provider heap1 0 log1 = (Inr (), heap2, log2)"
    by (simp add: heap2_def log2_def connect_def send_def example_provider_def Let_def)
  have t1: "token (heap1 0) = PStr ''token1''"
    by (simp add: heap1_def connect_def send_def example_provider_def Let_def)
  have t2: "token (heap2 0) = PStr ''token2''"
    by (simp add: heap2_def log1_def connect_def send_def example_provider_def Let_def)
  have h: "fs example_read_handle = 0" "fs example_write_handle = 0"
    by (simp_all add: example_read_handle_def example_write_handle_def)
  from requests_after_reconnect_use_new_token [OF c1 c2 h(1), of log2 "''dir''" True
         "''filesystem''" False "Some 0" "Some 10" True] t2
  have r: "list_all (\<lambda>rq. auth rq = Some (HBearer (PStr ''token2'')))
       (issued log2 (snd (ls example_provider (heap2 0) ''dir'' True ''filesystem'' False log2)))"
    "list_all (\<lambda>rq. auth rq = Some (HBearer (PStr ''token2'')))
       (issued log2 (snd (fetch_range example_provider heap2 example_read_handle
                            (Some 0) (Some 10) log2)))"
    by auto
  from requests_after_reconnect_use_new_token [OF c1 c2 h(2), of log2 "''dir''" True
         "''filesystem''" False "Some 0" "Some 10" True] t2
  have w: "list_all (\<lambda>rq. auth rq = Some (HBearer (PStr ''token2'')))
       (issued log2 (snd (snd (upload_chunk example_provider heap2 example_write_handle True log2))))"
    by auto
  from c1 c2 t1 t2 r w show ?thesis by blast
qed

section \<open>The write cycle\<close>









end
